theory Spec2Isabelle
  imports Complex_Main
begin

section \<open>JavaScript numbers and values\<close>

text \<open>
  The engine computes with JavaScript Numbers. A Number is modelled as a real, or one of
  the three non-finite values that the arithmetic of the language produces (a division by
  zero, a product of zero and infinity, the conversion of a non-number). Arithmetic on
  finite values is exact: the rounding of binary64 to 53 bits and its overflow are not
  modelled, and the two zeros are one (a zero divisor counts as \<open>+0\<close>). The decimal
  literals of the source (\<open>7.8\<close>, \<open>0.25\<close>) are the rationals they denote.
\<close>

datatype number = Fin real | PInf | NInf | NaN

text \<open>The infinity with the sign of \<open>s\<close>; \<open>NaN\<close> for \<open>s = 0\<close>.\<close>

definition inf_signed :: "real \<Rightarrow> number" where
  "inf_signed s = (if 0 < s then PInf else if s < 0 then NInf else NaN)"

fun num_neg :: "number \<Rightarrow> number" where
  "num_neg (Fin x) = Fin (- x)"
| "num_neg PInf = NInf"
| "num_neg NInf = PInf"
| "num_neg NaN = NaN"

fun num_add :: "number \<Rightarrow> number \<Rightarrow> number" where
  "num_add (Fin x) (Fin y) = Fin (x + y)"
| "num_add NaN b = NaN"
| "num_add a NaN = NaN"
| "num_add PInf NInf = NaN"
| "num_add NInf PInf = NaN"
| "num_add PInf b = PInf"
| "num_add NInf b = NInf"
| "num_add a PInf = PInf"
| "num_add a NInf = NInf"

definition num_sub :: "number \<Rightarrow> number \<Rightarrow> number" where
  "num_sub a b = num_add a (num_neg b)"

fun num_mul :: "number \<Rightarrow> number \<Rightarrow> number" where
  "num_mul (Fin x) (Fin y) = Fin (x * y)"
| "num_mul NaN b = NaN"
| "num_mul a NaN = NaN"
| "num_mul PInf (Fin y) = inf_signed y"
| "num_mul NInf (Fin y) = inf_signed (- y)"
| "num_mul (Fin x) PInf = inf_signed x"
| "num_mul (Fin x) NInf = inf_signed (- x)"
| "num_mul PInf PInf = PInf"
| "num_mul PInf NInf = NInf"
| "num_mul NInf PInf = NInf"
| "num_mul NInf NInf = PInf"

fun num_div :: "number \<Rightarrow> number \<Rightarrow> number" where
  "num_div (Fin x) (Fin y) = (if y = 0 then inf_signed x else Fin (x / y))"
| "num_div NaN b = NaN"
| "num_div a NaN = NaN"
| "num_div (Fin x) PInf = Fin 0"
| "num_div (Fin x) NInf = Fin 0"
| "num_div PInf (Fin y) = (if 0 \<le> y then PInf else NInf)"
| "num_div NInf (Fin y) = (if 0 \<le> y then NInf else PInf)"
| "num_div PInf PInf = NaN"
| "num_div PInf NInf = NaN"
| "num_div NInf PInf = NaN"
| "num_div NInf NInf = NaN"



definition number_of_nat :: "nat \<Rightarrow> number" where
  "number_of_nat n = Fin (real n)"

definition is_finite :: "number \<Rightarrow> bool" where
  "is_finite a = (case a of Fin x \<Rightarrow> True | _ \<Rightarrow> False)"

text \<open>
  \<open>Math.round\<close>: the nearest integer, a tie going towards \<open>+\<infinity>\<close>, which is
  \<open>\<lfloor>x + 1/2\<rfloor>\<close>, HOL's \<^const>\<open>round\<close>; a non-finite argument is returned as it is.
\<close>

fun math_round :: "number \<Rightarrow> number" where
  "math_round (Fin x) = Fin (of_int (round x))"
| "math_round a = a"

text \<open>
  \<open>Math.pow\<close>, case by case as the language defines \<open>Number::exponentiate\<close>. The source
  calls it with a month count, a natural number, or with \<open>NaN\<close>.
\<close>

definition is_integer :: "real \<Rightarrow> bool" where
  "is_integer y = (y = of_int \<lfloor>y\<rfloor>)"

definition is_odd_integer :: "real \<Rightarrow> bool" where
  "is_odd_integer y = (is_integer y \<and> odd \<lfloor>y\<rfloor>)"

fun math_pow :: "number \<Rightarrow> number \<Rightarrow> number" where
  "math_pow b NaN = NaN"
| "math_pow NaN (Fin y) = (if y = 0 then Fin 1 else NaN)"
| "math_pow NaN e = NaN"
| "math_pow PInf (Fin y) = (if y = 0 then Fin 1 else if 0 < y then PInf else Fin 0)"
| "math_pow PInf PInf = PInf"
| "math_pow PInf NInf = Fin 0"
| "math_pow NInf (Fin y) =
     (if y = 0 then Fin 1
      else if 0 < y then (if is_odd_integer y then NInf else PInf)
      else Fin 0)"
| "math_pow NInf PInf = PInf"
| "math_pow NInf NInf = Fin 0"
| "math_pow (Fin x) PInf =
     (if 1 < \<bar>x\<bar> then PInf else if \<bar>x\<bar> = 1 then NaN else Fin 0)"
| "math_pow (Fin x) NInf =
     (if 1 < \<bar>x\<bar> then Fin 0 else if \<bar>x\<bar> = 1 then NaN else PInf)"
| "math_pow (Fin x) (Fin y) =
     (if y = 0 then Fin 1
      else if x = 0 then (if 0 < y then Fin 0 else PInf)
      else if is_integer y then Fin (power_int x \<lfloor>y\<rfloor>)
      else if x < 0 then NaN
      else Fin (x powr y))"

text \<open>
  The values an expression of the source can have besides a Number: \<open>undefined\<close> (a
  property that is not there) and an object or function (a property inherited from
  \<open>Object.prototype\<close>).
\<close>

datatype js_value = JSUndefined | JSNumber number | JSObject

text \<open>\<open>ToBoolean\<close>: \<open>undefined\<close>, zero and \<open>NaN\<close> are falsy, every object is truthy.\<close>

fun to_boolean :: "js_value \<Rightarrow> bool" where
  "to_boolean JSUndefined = False"
| "to_boolean (JSNumber (Fin x)) = (x \<noteq> 0)"
| "to_boolean (JSNumber NaN) = False"
| "to_boolean (JSNumber a) = True"
| "to_boolean JSObject = True"

text \<open>
  \<open>ToNumber\<close>: \<open>undefined\<close> is \<open>NaN\<close>; a function, and \<open>Object.prototype\<close> itself,
  convert through their string form, which is not a numeral: \<open>NaN\<close>.
\<close>

fun to_number :: "js_value \<Rightarrow> number" where
  "to_number JSUndefined = NaN"
| "to_number (JSNumber a) = a"
| "to_number JSObject = NaN"

text \<open>The operator \<open>a || b\<close>.\<close>

definition logical_or :: "js_value \<Rightarrow> js_value \<Rightarrow> js_value" where
  "logical_or a b = (if to_boolean a then a else b)"

text \<open>
  The property names every object literal inherits from \<open>Object.prototype\<close>; each is
  a function, but \<open>__proto__\<close>, which is the prototype object.
\<close>

definition object_prototype_keys :: "string list" where
  "object_prototype_keys =
     [''constructor'', ''hasOwnProperty'', ''isPrototypeOf'', ''propertyIsEnumerable'',
      ''toLocaleString'', ''toString'', ''valueOf'', ''__proto__'',
      ''__defineGetter__'', ''__defineSetter__'', ''__lookupGetter__'', ''__lookupSetter__'']"

text \<open>
  \<open>obj[key]\<close> on an object literal whose own properties are Numbers: the own property
  if there is one, else the inherited one, else \<open>undefined\<close>.
\<close>

definition get_property :: "(string \<times> number) list \<Rightarrow> string \<Rightarrow> js_value" where
  "get_property obj key =
     (case map_of obj key of
        Some v \<Rightarrow> JSNumber v
      | None \<Rightarrow> if key \<in> set object_prototype_keys then JSObject else JSUndefined)"

section \<open>The recommendation engine\<close>

datatype RiskLevel = Low | Medium | High

record Investment =
  symbol :: string
  name :: string
  allocation :: number
  expectedReturn :: number
  riskLevel :: RiskLevel
  description :: string

record PortfolioData =
  investments :: "Investment list"
  totalExpectedReturn :: number
  riskScore :: number
  monthlyAmount :: number
  projectedValue :: number
  timeframe :: string

text \<open>
  \<open>riskTolerance\<close> is declared as one of three literals, but the \<open>switch\<close> has a
  \<open>default\<close> branch for any other value at run time: it is a string here. The labels
  of the source are ASCII, so a \<open>string\<close> of HOL holds them as they are.
\<close>

record BudgetRiskData =
  monthlyBudget :: number
  riskTolerance :: string
  investmentGoal :: string
  timeHorizon :: string

definition INVESTMENT_OPTIONS :: "Investment list" where
  "INVESTMENT_OPTIONS =
    [\<lparr>symbol = ''VOO'', name = ''Vanguard S&P 500 ETF'', allocation = Fin 0,
      expectedReturn = Fin 10.5, riskLevel = Low,
      description = ''Tracks the S&P 500 index, providing broad market exposure with low fees. Perfect for long-term growth with reduced volatility.''\<rparr>,
     \<lparr>symbol = ''VTI'', name = ''Vanguard Total Stock Market ETF'', allocation = Fin 0,
      expectedReturn = Fin 10.8, riskLevel = Medium,
      description = ''Invests in the entire U.S. stock market, including small, mid, and large-cap stocks for comprehensive market exposure.''\<rparr>,
     \<lparr>symbol = ''AAPL'', name = ''Apple Inc.'', allocation = Fin 0,
      expectedReturn = Fin 12.0, riskLevel = Medium,
      description = ''Blue-chip technology stock with strong fundamentals and consistent growth. A stable choice for growth-oriented portfolios.''\<rparr>,
     \<lparr>symbol = ''MSFT'', name = ''Microsoft Corporation'', allocation = Fin 0,
      expectedReturn = Fin 11.5, riskLevel = Medium,
      description = ''Leading technology company with diversified revenue streams in cloud computing, productivity software, and gaming.''\<rparr>,
     \<lparr>symbol = ''BND'', name = ''Vanguard Total Bond Market ETF'', allocation = Fin 0,
      expectedReturn = Fin 4.2, riskLevel = Low,
      description = ''Provides exposure to the entire U.S. investment-grade bond market. Offers stability and income generation.''\<rparr>,
     \<lparr>symbol = ''QQQ'', name = ''Invesco QQQ ETF'', allocation = Fin 0,
      expectedReturn = Fin 13.2, riskLevel = High,
      description = ''Tracks the Nasdaq-100 index, focusing on technology and growth companies. Higher potential returns with increased volatility.''\<rparr>]"

definition timeMultipliers :: "(string \<times> number) list" where
  "timeMultipliers =
     [(''3-months'', Fin 0.25), (''6-months'', Fin 0.5), (''1-year'', Fin 1),
      (''2-years'', Fin 2), (''5-years'', Fin 5)]"

text \<open>
  The \<open>switch\<close> on \<open>riskTolerance\<close>: the selected investments, \<open>totalExpectedReturn\<close>
  and \<open>riskScore\<close>.
\<close>

definition selectInvestments :: "string \<Rightarrow> Investment list \<times> number \<times> number" where
  "selectInvestments risk =
     (if risk = ''low'' then
        ([(INVESTMENT_OPTIONS ! 0)\<lparr>allocation := Fin 60\<rparr>,
          (INVESTMENT_OPTIONS ! 4)\<lparr>allocation := Fin 30\<rparr>,
          (INVESTMENT_OPTIONS ! 2)\<lparr>allocation := Fin 10\<rparr>], Fin 7.8, Fin 2)
      else if risk = ''medium'' then
        ([(INVESTMENT_OPTIONS ! 0)\<lparr>allocation := Fin 50\<rparr>,
          (INVESTMENT_OPTIONS ! 2)\<lparr>allocation := Fin 25\<rparr>,
          (INVESTMENT_OPTIONS ! 3)\<lparr>allocation := Fin 15\<rparr>,
          (INVESTMENT_OPTIONS ! 4)\<lparr>allocation := Fin 10\<rparr>], Fin 9.8, Fin 4)
      else if risk = ''high'' then
        ([(INVESTMENT_OPTIONS ! 5)\<lparr>allocation := Fin 40\<rparr>,
          (INVESTMENT_OPTIONS ! 1)\<lparr>allocation := Fin 30\<rparr>,
          (INVESTMENT_OPTIONS ! 2)\<lparr>allocation := Fin 20\<rparr>,
          (INVESTMENT_OPTIONS ! 3)\<lparr>allocation := Fin 10\<rparr>], Fin 12.1, Fin 7)
      else
        ([(INVESTMENT_OPTIONS ! 0)\<lparr>allocation := Fin 100\<rparr>], Fin 10.5, Fin 3))"

text \<open>
  The projection block of \<open>generatePortfolioRecommendation\<close>. The source inlines it;
  here the contribution, the expected return in percent and the month count are
  parameters. \<open>futureValue\<close> is the source's local constant \<open>projectedValue\<close>, the
  annuity formula before rounding; \<open>projectFutureValue\<close> is \<open>Math.round\<close> of it,
  the value the returned record holds in its field \<open>projectedValue\<close>.
\<close>

definition futureValue :: "number \<Rightarrow> number \<Rightarrow> number \<Rightarrow> number" where
  "futureValue monthlyContribution expectedReturnPercent totalMonths =
     (let annualReturn = num_div expectedReturnPercent (Fin 100);
          monthlyReturn = num_div annualReturn (Fin 12)
      in num_div
           (num_mul monthlyContribution
              (num_sub (math_pow (num_add (Fin 1) monthlyReturn) totalMonths) (Fin 1)))
           monthlyReturn)"

definition projectFutureValue :: "number \<Rightarrow> number \<Rightarrow> number \<Rightarrow> number" where
  "projectFutureValue monthlyContribution expectedReturnPercent totalMonths =
     math_round (futureValue monthlyContribution expectedReturnPercent totalMonths)"

definition generatePortfolioRecommendation :: "BudgetRiskData \<Rightarrow> PortfolioData" where
  "generatePortfolioRecommendation userData =
     (let timeMultiplier =
            logical_or (get_property timeMultipliers (timeHorizon userData)) (JSNumber (Fin 1));
          (selectedInvestments, totalExpectedReturn', riskScore') =
            selectInvestments (riskTolerance userData);
          monthlyContribution = monthlyBudget userData;
          totalMonths = num_mul (to_number timeMultiplier) (Fin 12)
      in \<lparr>investments = selectedInvestments,
          totalExpectedReturn = totalExpectedReturn',
          riskScore = riskScore',
          monthlyAmount = monthlyBudget userData,
          projectedValue = projectFutureValue monthlyContribution totalExpectedReturn' totalMonths,
          timeframe = timeHorizon userData\<rparr>)"

text \<open>The sum of the allocation percentages of a portfolio.\<close>

definition allocation_sum :: "Investment list \<Rightarrow> number" where
  "allocation_sum invs = foldl num_add (Fin 0) (map allocation invs)"

section \<open>The goal tracker\<close>


section \<open>The DCA simulator\<close>

record DCAPoint =
  month :: number
  dca :: number
  lumpSum :: number
  contributions :: number

text \<open>
  \<open>generateDCAData\<close> closes over \<open>customMonthly\<close>, \<open>months\<close> and
  \<open>monthlyReturn\<close> of the component; they are parameters here. \<open>months\<close> is the
  month count of the component's table, a natural number. The \<open>for\<close> loop is the
  recursion on the counter \<open>m\<close> (the source's \<open>month\<close>), which carries
  \<open>dcaValue\<close>, \<open>lumpSumValue\<close> and the array \<open>data\<close>.
\<close>

function generateDCAData_loop ::
  "number \<Rightarrow> nat \<Rightarrow> number \<Rightarrow> nat \<Rightarrow> number \<Rightarrow> number \<Rightarrow> DCAPoint list \<Rightarrow> DCAPoint list" where
  "generateDCAData_loop customMonthly months monthlyReturn m dcaValue lumpSumValue data =
     (if m \<le> months then
        (let dcaValue' =
               (if 0 < m then num_mul (num_add dcaValue customMonthly) (num_add (Fin 1) monthlyReturn)
                else dcaValue);
             lumpSumValue' =
               (if 0 < m then num_mul lumpSumValue (num_add (Fin 1) monthlyReturn)
                else lumpSumValue)
         in generateDCAData_loop customMonthly months monthlyReturn (Suc m) dcaValue' lumpSumValue'
              (data @ [\<lparr>month = number_of_nat m, dca = math_round dcaValue',
                         lumpSum = math_round lumpSumValue',
                         contributions = num_mul (number_of_nat m) customMonthly\<rparr>]))
      else data)"
  by pat_completeness auto
termination
  by (relation "measure (\<lambda>(c, months, r, m, d, l, data). Suc months - m)") auto

definition generateDCAData :: "number \<Rightarrow> nat \<Rightarrow> number \<Rightarrow> DCAPoint list" where
  "generateDCAData customMonthly months monthlyReturn =
     (let dcaValue = Fin 0;
          lumpSumValue = num_mul customMonthly (number_of_nat months)
      in generateDCAData_loop customMonthly months monthlyReturn 0 dcaValue lumpSumValue [])"

section \<open>Closed forms used in the proofs\<close>

text \<open>
  The value of \<open>dcaValue\<close> and of \<open>lumpSumValue\<close> after the loop body has run for
  month \<open>k\<close>, and the point pushed for that month.
\<close>

primrec dcaValue_at :: "number \<Rightarrow> number \<Rightarrow> nat \<Rightarrow> number" where
  "dcaValue_at c r 0 = Fin 0"
| "dcaValue_at c r (Suc k) = num_mul (num_add (dcaValue_at c r k) c) (num_add (Fin 1) r)"

primrec lumpSumValue_at :: "number \<Rightarrow> nat \<Rightarrow> number \<Rightarrow> nat \<Rightarrow> number" where
  "lumpSumValue_at c months r 0 = num_mul c (number_of_nat months)"
| "lumpSumValue_at c months r (Suc k) =
     num_mul (lumpSumValue_at c months r k) (num_add (Fin 1) r)"

definition dca_point :: "number \<Rightarrow> nat \<Rightarrow> number \<Rightarrow> nat \<Rightarrow> DCAPoint" where
  "dca_point c months r k =
     \<lparr>month = number_of_nat k, dca = math_round (dcaValue_at c r k),
      lumpSum = math_round (lumpSumValue_at c months r k),
      contributions = num_mul (number_of_nat k) c\<rparr>"


section \<open>Basic facts\<close>

lemma math_pow_nat: "math_pow (Fin x) (number_of_nat n) = Fin (x ^ n)"
  by (cases "n = 0") (simp_all add: number_of_nat_def is_integer_def)

lemma futureValue_finite:
  "a \<noteq> 0 \<Longrightarrow>
   futureValue (Fin c) (Fin a) (number_of_nat n) = Fin (c * ((1 + a / 1200) ^ n - 1) / (a / 1200))"
  by (simp add: futureValue_def num_sub_def math_pow_nat)






lemma totalMonths_default:
  assumes "key \<notin> set object_prototype_keys"
    and "key \<notin> {''3-months'', ''6-months'', ''1-year'', ''2-years'', ''5-years''}"
  shows "num_mul (to_number (logical_or (get_property timeMultipliers key) (JSNumber (Fin 1))))
           (Fin 12) = number_of_nat 12"
  using assms
  by (simp add: get_property_def timeMultipliers_def logical_or_def number_of_nat_def)

section \<open>The zero rate\<close>



section \<open>The required monthly contribution and the projection\<close>





section \<open>The recommendation\<close>

lemma round_medium_one_year:
  "round (50 * ((1 + 0.098 / 12) ^ 12 - 1) / (0.098 / 12) :: real) = 628"
  by (rule round_unique) (simp_all add: power_divide)

text \<open>
  C3. For a monthly budget of 50, medium risk and the one-year horizon (whatever the
  investment goal), the recommendation is the medium template VOO 50, AAPL 25, MSFT 15,
  BND 10, the expected return is 9.8, and the projected value is
  \<open>round (50 * ((1 + 0.098/12)^12 - 1) / (0.098/12))\<close>, which is 628.
\<close>

theorem C3_medium_one_year:
  "map (\<lambda>i. (symbol i, allocation i))
     (investments (generatePortfolioRecommendation
        \<lparr>monthlyBudget = Fin 50, riskTolerance = ''medium'', investmentGoal = g,
         timeHorizon = ''1-year''\<rparr>))
     = [(''VOO'', Fin 50), (''AAPL'', Fin 25), (''MSFT'', Fin 15), (''BND'', Fin 10)] \<and>
   totalExpectedReturn (generatePortfolioRecommendation
        \<lparr>monthlyBudget = Fin 50, riskTolerance = ''medium'', investmentGoal = g,
         timeHorizon = ''1-year''\<rparr>) = Fin 9.8 \<and>
   projectedValue (generatePortfolioRecommendation
        \<lparr>monthlyBudget = Fin 50, riskTolerance = ''medium'', investmentGoal = g,
         timeHorizon = ''1-year''\<rparr>)
     = Fin (of_int (round (50 * ((1 + 0.098 / 12) ^ 12 - 1) / (0.098 / 12) :: real))) \<and>
   projectedValue (generatePortfolioRecommendation
        \<lparr>monthlyBudget = Fin 50, riskTolerance = ''medium'', investmentGoal = g,
         timeHorizon = ''1-year''\<rparr>) = Fin 628"
proof -
  let ?r = "generatePortfolioRecommendation
        \<lparr>monthlyBudget = Fin 50, riskTolerance = ''medium'', investmentGoal = g,
         timeHorizon = ''1-year''\<rparr>"
  have inv: "map (\<lambda>i. (symbol i, allocation i)) (investments ?r)
     = [(''VOO'', Fin 50), (''AAPL'', Fin 25), (''MSFT'', Fin 15), (''BND'', Fin 10)]"
    by (simp add: generatePortfolioRecommendation_def selectInvestments_def
        INVESTMENT_OPTIONS_def)
  have ret: "totalExpectedReturn ?r = Fin 9.8"
    by (simp add: generatePortfolioRecommendation_def selectInvestments_def)
  have months: "num_mul (to_number (logical_or (get_property timeMultipliers ''1-year'')
                  (JSNumber (Fin 1)))) (Fin 12) = number_of_nat 12"
    by (simp add: get_property_def timeMultipliers_def logical_or_def number_of_nat_def)
  have "projectedValue ?r = projectFutureValue (Fin 50) (Fin 9.8) (number_of_nat 12)"
    by (simp add: generatePortfolioRecommendation_def selectInvestments_def months)
  also have "\<dots> = Fin (of_int (round (50 * ((1 + 9.8 / 1200) ^ 12 - 1) / (9.8 / 1200) :: real)))"
    by (simp add: projectFutureValue_def futureValue_finite)
  also have "(50 * ((1 + 9.8 / 1200) ^ 12 - 1) / (9.8 / 1200) :: real)
      = 50 * ((1 + 0.098 / 12) ^ 12 - 1) / (0.098 / 12)"
    by simp
  finally have pv: "projectedValue ?r
      = Fin (of_int (round (50 * ((1 + 0.098 / 12) ^ 12 - 1) / (0.098 / 12) :: real)))" .
  from inv ret pv show ?thesis
    by (simp only: round_medium_one_year of_int_numeral simp_thms)
qed

text \<open>
  C4. Whatever the input (the three risk tolerances and any other value, which takes
  the default branch), the allocation percentages of the returned portfolio sum to 100.
\<close>

theorem C4_allocation_sums_to_100:
  "allocation_sum (investments (generatePortfolioRecommendation userData)) = Fin 100"
  by (simp add: generatePortfolioRecommendation_def selectInvestments_def
      INVESTMENT_OPTIONS_def allocation_sum_def)

text \<open>
  C10. The recommendation does not depend on \<open>investmentGoal\<close>: two inputs with the
  same budget, risk tolerance and time horizon get the same \<open>PortfolioData\<close>.
\<close>

theorem C10_investmentGoal_not_read:
  assumes "monthlyBudget u1 = monthlyBudget u2"
    and "riskTolerance u1 = riskTolerance u2"
    and "timeHorizon u1 = timeHorizon u2"
  shows "generatePortfolioRecommendation u1 = generatePortfolioRecommendation u2"
  using assms by (simp add: generatePortfolioRecommendation_def)

theorem C10_investmentGoal_not_read_witness:
  "generatePortfolioRecommendation
     \<lparr>monthlyBudget = Fin 50, riskTolerance = ''low'', investmentGoal = ''retirement'',
      timeHorizon = ''2-years''\<rparr>
   = generatePortfolioRecommendation
     \<lparr>monthlyBudget = Fin 50, riskTolerance = ''low'', investmentGoal = ''emergency-fund'',
      timeHorizon = ''2-years''\<rparr>"
  by (rule C10_investmentGoal_not_read) simp_all

section \<open>The DCA series\<close>

text \<open>
  The loop, entered at month \<open>m\<close> with the values of the month before, appends the
  points of the months \<open>m\<close> to \<open>months\<close>.
\<close>

lemma generateDCAData_loop_points:
  "generateDCAData_loop c months r m (dcaValue_at c r (m - 1))
     (lumpSumValue_at c months r (m - 1)) data
   = data @ map (dca_point c months r) [m..<Suc months]"
proof (induction "Suc months - m" arbitrary: m data)
  case 0
  then have "\<not> m \<le> months" by simp
  then show ?case by simp
next
  case (Suc k)
  then have le: "m \<le> months" and k: "k = Suc months - Suc m" by simp_all
  have d: "(if 0 < m then num_mul (num_add (dcaValue_at c r (m - 1)) c) (num_add (Fin 1) r)
            else dcaValue_at c r (m - 1)) = dcaValue_at c r m"
    by (cases m) simp_all
  have l: "(if 0 < m then num_mul (lumpSumValue_at c months r (m - 1)) (num_add (Fin 1) r)
            else lumpSumValue_at c months r (m - 1)) = lumpSumValue_at c months r m"
    by (cases m) simp_all
  have "generateDCAData_loop c months r m (dcaValue_at c r (m - 1))
          (lumpSumValue_at c months r (m - 1)) data
      = generateDCAData_loop c months r (Suc m) (dcaValue_at c r (Suc m - 1))
          (lumpSumValue_at c months r (Suc m - 1)) (data @ [dca_point c months r m])"
    using le
    by (subst generateDCAData_loop.simps)
      (simp add: d l dca_point_def Let_def del: generateDCAData_loop.simps)
  also have "\<dots> = (data @ [dca_point c months r m])
      @ map (dca_point c months r) [Suc m..<Suc months]"
    by (rule Suc.hyps(1) [OF k])
  also have "\<dots> = data @ map (dca_point c months r) [m..<Suc months]"
    using le by (simp add: upt_conv_Cons del: upt_Suc)
  finally show ?case .
qed

lemma generateDCAData_points:
  "generateDCAData c months r = map (dca_point c months r) [0..<Suc months]"
  using generateDCAData_loop_points [of c months r 0 "[]"]
  by (simp add: generateDCAData_def del: generateDCAData_loop.simps upt_Suc)

lemma generateDCAData_first: "generateDCAData c n r ! 0 = dca_point c n r 0"
  by (simp add: generateDCAData_points del: upt_Suc)






text \<open>
  C7 (as the code has it). The series has \<open>n + 1\<close> points, for the months \<open>0\<close> to
  \<open>n\<close>. The point of month 0 has the DCA value 0 and the lump-sum value
  \<open>Math.round (c * n)\<close>; its cumulative contributions are 0 when \<open>c\<close> is finite. The
  lump-sum value is \<open>c * n\<close> itself when that product is an integer.
\<close>

theorem C7_series_shape:
  "length (generateDCAData c n r) = n + 1 \<and>
   map month (generateDCAData c n r) = map number_of_nat [0..<n + 1] \<and>
   dca (generateDCAData c n r ! 0) = Fin 0 \<and>
   lumpSum (generateDCAData c n r ! 0) = math_round (num_mul c (number_of_nat n)) \<and>
   (is_finite c \<longrightarrow> contributions (generateDCAData c n r ! 0) = Fin 0) \<and>
   (is_integer (x * real n) \<longrightarrow> lumpSum (generateDCAData (Fin x) n r ! 0) = Fin (x * real n))"
proof -
  have len: "length (generateDCAData c n r) = n + 1"
    by (simp add: generateDCAData_points del: upt_Suc)
  have months: "map month (generateDCAData c n r) = map number_of_nat [0..<n + 1]"
    by (simp add: generateDCAData_points dca_point_def comp_def del: upt_Suc)
  have d0: "dca (generateDCAData c n r ! 0) = Fin 0"
    by (simp add: generateDCAData_first dca_point_def)
  have l0: "lumpSum (generateDCAData c n r ! 0) = math_round (num_mul c (number_of_nat n))"
    by (simp add: generateDCAData_first dca_point_def)
  have c0: "is_finite c \<longrightarrow> contributions (generateDCAData c n r ! 0) = Fin 0"
    by (cases c) (simp_all add: generateDCAData_first dca_point_def number_of_nat_def is_finite_def)
  have i0: "is_integer (x * real n) \<longrightarrow>
      lumpSum (generateDCAData (Fin x) n r ! 0) = Fin (x * real n)"
  proof
    assume "is_integer (x * real n)"
    then have "x * real n = of_int \<lfloor>x * real n\<rfloor>" by (simp add: is_integer_def)
    then have "of_int (round (x * real n)) = x * real n"
      by (metis round_of_int)
    then show "lumpSum (generateDCAData (Fin x) n r ! 0) = Fin (x * real n)"
      by (simp add: generateDCAData_first dca_point_def number_of_nat_def)
  qed
  from len months d0 l0 c0 i0 show ?thesis by blast
qed

theorem C7_series_shape_witness:
  "is_finite (Fin 50) \<and> is_integer (50 * real 12) \<and>
   length (generateDCAData (Fin 50) 12 (Fin 0.008)) = 13 \<and>
   contributions (generateDCAData (Fin 50) 12 (Fin 0.008) ! 0) = Fin 0 \<and>
   lumpSum (generateDCAData (Fin 50) 12 (Fin 0.008) ! 0) = Fin 600"
  using C7_series_shape [of "Fin 50" 12 "Fin 0.008" 50]
  by (simp add: is_finite_def is_integer_def number_of_nat_def)

text \<open>
  C7, the claim as stated, fails where \<open>c * n\<close> is not an integer: for \<open>c = 10.5\<close> and
  \<open>n = 3\<close> the point of month 0 holds the lump-sum value 32, and \<open>c * n\<close> is 31.5.
\<close>

theorem C7_rounded_lump_sum_counterexample:
  "lumpSum (generateDCAData (Fin 10.5) 3 (Fin 0.008) ! 0) = Fin 32 \<and>
   num_mul (Fin 10.5) (number_of_nat 3) = Fin 31.5"
  by (simp add: generateDCAData_first dca_point_def number_of_nat_def round_def)

section \<open>Monotonicity of the projection\<close>






section \<open>Unrecognized inputs\<close>


lemma generatePortfolioRecommendation_projectedValue:
  "projectedValue (generatePortfolioRecommendation u)
     = projectFutureValue (monthlyBudget u) (totalExpectedReturn (generatePortfolioRecommendation u))
         (num_mul (to_number (logical_or (get_property timeMultipliers (timeHorizon u))
            (JSNumber (Fin 1)))) (Fin 12))"
  by (simp add: generatePortfolioRecommendation_def split: prod.splits)

text \<open>A risk tolerance that is none of the three gets the single-instrument default.\<close>

lemma unrecognized_riskTolerance_default:
  assumes "riskTolerance u \<notin> {''low'', ''medium'', ''high''}"
  shows "investments (generatePortfolioRecommendation u)
           = [(INVESTMENT_OPTIONS ! 0)\<lparr>allocation := Fin 100\<rparr>] \<and>
         totalExpectedReturn (generatePortfolioRecommendation u) = Fin 10.5 \<and>
         riskScore (generatePortfolioRecommendation u) = Fin 3"
  using assms by (simp add: generatePortfolioRecommendation_def selectInvestments_def)

text \<open>
  A horizon label that is neither one of the five nor the name of an inherited property
  gets 12 months.
\<close>

lemma unrecognized_timeHorizon_default:
  assumes "timeHorizon u \<notin> {''3-months'', ''6-months'', ''1-year'', ''2-years'', ''5-years''}"
    and "timeHorizon u \<notin> set object_prototype_keys"
  shows "projectedValue (generatePortfolioRecommendation u)
     = projectFutureValue (monthlyBudget u) (totalExpectedReturn (generatePortfolioRecommendation u))
         (number_of_nat 12)"
  using totalMonths_default [OF assms(2) assms(1)]
  by (simp only: generatePortfolioRecommendation_projectedValue)

text \<open>
  C8, at the input where the code departs from it. The label \<open>toString\<close> is outside
  the five horizon labels, yet \<open>timeMultipliers[timeHorizon]\<close> finds the function
  inherited from \<open>Object.prototype\<close>, which is truthy, so \<open>|| 1\<close> does not apply; the
  month count is \<open>NaN\<close> and so is the projected value. With 12 months the projected
  value would be 628.
\<close>

theorem C8_inherited_key_not_defaulted:
  "projectedValue (generatePortfolioRecommendation
      \<lparr>monthlyBudget = Fin 50, riskTolerance = ''medium'', investmentGoal = ''retirement'',
       timeHorizon = ''toString''\<rparr>) = NaN \<and>
   projectFutureValue (Fin 50) (Fin 9.8) (Fin 12) = Fin 628"
proof -
  have "projectedValue (generatePortfolioRecommendation
      \<lparr>monthlyBudget = Fin 50, riskTolerance = ''medium'', investmentGoal = ''retirement'',
       timeHorizon = ''toString''\<rparr>) = NaN"
    by (simp add: generatePortfolioRecommendation_def selectInvestments_def get_property_def
        timeMultipliers_def object_prototype_keys_def logical_or_def projectFutureValue_def
        futureValue_def num_sub_def)
  moreover have "projectFutureValue (Fin 50) (Fin 9.8) (Fin 12) = Fin 628"
    using round_medium_one_year
    by (simp add: projectFutureValue_def futureValue_def num_sub_def is_integer_def)
  ultimately show ?thesis by simp
qed

section \<open>No division by zero\<close>




end
